theory Spec2Isabelle
  imports Complex_Main
begin

section \<open>Coordinate vectors\<close>

text \<open>
  The machine of \<^verbatim>\<open>cnc/gmachine.py\<close> computes with values of the class
  \<^verbatim>\<open>Coordinates\<close> (module \<^verbatim>\<open>cnc.coordinates\<close>), a vector of three linear
  axes and one extruder axis. Python's floats are idealised as real numbers throughout:
  every operation is exact.
\<close>

datatype coordinates = Coordinates (x: real) (y: real) (z: real) (e: real)

text \<open>
  Modelled from the spec: the operators \<^verbatim>\<open>+\<close> and \<^verbatim>\<open>-\<close> of the class
  \<^verbatim>\<open>Coordinates\<close>, whose module is not among the sources. The spec (3, 4.1):
  arithmetic is component-wise, every operation produces a new value.
\<close>

instantiation coordinates :: "{plus, minus}"
begin

definition plus_coordinates :: "coordinates \<Rightarrow> coordinates \<Rightarrow> coordinates" where
  "plus_coordinates a b = Coordinates (x a + x b) (y a + y b) (z a + z b) (e a + e b)"

definition minus_coordinates :: "coordinates \<Rightarrow> coordinates \<Rightarrow> coordinates" where
  "minus_coordinates a b = Coordinates (x a - x b) (y a - y b) (z a - z b) (e a - e b)"

instance ..

end

text \<open>
  The nearest integer to a real, as Python 3's built-in \<^verbatim>\<open>round\<close> computes it: a
  value half way between two integers goes to the even one. The spec only says
  ``nearest''; no result below depends on how ties are broken.
\<close>

definition py_round :: "real \<Rightarrow> int" where
  "py_round v =
     (let f = \<lfloor>v\<rfloor>; d = v - of_int f
      in if d < 1 / 2 then f
         else if 1 / 2 < d then f + 1
         else if even f then f else f + 1)"

text \<open>
  Modelled from the spec: the method \<^verbatim>\<open>Coordinates.round\<close>, whose module is not
  among the sources. The spec (4.1): ``quantize(resolution 1..4): new vector with each
  component rounded to nearest integer multiple of its resolution''; ``No error
  conditions; pure functions''. With a resolution of 0 the only multiple is 0, which is
  what \<open>v / 0 = 0\<close> of HOL gives here.
\<close>

definition round_c :: "coordinates \<Rightarrow> real \<Rightarrow> real \<Rightarrow> real \<Rightarrow> real \<Rightarrow> coordinates" where
  "round_c c base_x base_y base_z base_e =
     Coordinates (of_int (py_round (x c / base_x)) * base_x)
                 (of_int (py_round (y c / base_y)) * base_y)
                 (of_int (py_round (z c / base_z)) * base_z)
                 (of_int (py_round (e c / base_e)) * base_e)"

text \<open>
  Modelled from the spec: the method \<^verbatim>\<open>Coordinates.is_zero\<close>. The spec (4.1):
  ``true iff all components are exactly zero''.
\<close>

definition is_zero :: "coordinates \<Rightarrow> bool" where
  "is_zero c \<longleftrightarrow> x c = 0 \<and> y c = 0 \<and> z c = 0 \<and> e c = 0"

text \<open>
  Modelled from the spec: the method \<^verbatim>\<open>Coordinates.is_in_aabb\<close>. The spec (3, 4.1):
  ``containment test checks every component lies within an inclusive closed interval
  per axis''; ``true iff every component lies in [min_i, max_i]''.
\<close>

definition is_in_aabb :: "coordinates \<Rightarrow> coordinates \<Rightarrow> coordinates \<Rightarrow> bool" where
  "is_in_aabb c p1 p2 \<longleftrightarrow>
     x p1 \<le> x c \<and> x c \<le> x p2 \<and> y p1 \<le> y c \<and> y c \<le> y p2 \<and>
     z p1 \<le> z c \<and> z c \<le> z p2 \<and> e p1 \<le> e c \<and> e c \<le> e p2"

section \<open>Configuration, enumerations and the hardware layer\<close>

text \<open>
  The constants of \<^verbatim>\<open>cnc.config\<close> that \<^verbatim>\<open>gmachine.py\<close> reads. The module is not
  among the sources, so the constants are parameters of the model.
\<close>

record config =
  TABLE_SIZE_X_MM :: real
  TABLE_SIZE_Y_MM :: real
  TABLE_SIZE_Z_MM :: real
  STEPPER_PULSES_PER_MM_X :: real
  STEPPER_PULSES_PER_MM_Y :: real
  STEPPER_PULSES_PER_MM_Z :: real
  STEPPER_PULSES_PER_MM_E :: real
  STEPPER_MAX_VELOCITY_MM_PER_MIN :: real
  SPINDLE_MAX_RPM :: real
  EXTRUDER_MAX_TEMPERATURE :: real
  BED_MAX_TEMPERATURE :: real
  MIN_TEMPERATURE :: real

text \<open>The enumerations of \<^verbatim>\<open>cnc.enums\<close>: planes, rotation directions, heaters.\<close>

datatype plane = PLANE_XY | PLANE_ZX | PLANE_YZ

datatype direction = CW | CCW

datatype heater = HEATER_EXTRUDER | HEATER_BED

text \<open>
  The exceptions the code can raise: its own \<^verbatim>\<open>GMachineException\<close> with a message (the
  machine fault), Python's \<^verbatim>\<open>ZeroDivisionError\<close> of a float division by zero and
  \<^verbatim>\<open>ValueError\<close> of \<^verbatim>\<open>math.sqrt\<close> on a negative number, and the plain
  \<^verbatim>\<open>Exception\<close> of \<^verbatim>\<open>do_command\<close>.
\<close>

datatype exn = GMachineException string | ZeroDivisionError | ValueError | Exception string

text \<open>
  The pulse generators of \<^verbatim>\<open>cnc.pulses\<close> are opaque motion segments: a value records
  the constructor's arguments.
\<close>

datatype pulse_generator =
    PulseGeneratorLinear coordinates real
  | PulseGeneratorCircular coordinates coordinates plane direction real

text \<open>
  Every call that leaves the machine is recorded, in order: the calls of the hardware
  layer \<^verbatim>\<open>hal\<close>, the calls on \<^verbatim>\<open>Heater\<close> objects (\<open>Heater_new h t\<close> is the construction
  of the heater \<open>h\<close> with target temperature \<open>t\<close>; the coefficients and the measure and
  control functions passed with it are determined by \<open>h\<close>), \<^verbatim>\<open>time.sleep\<close> and
  \<^verbatim>\<open>logging_config.debug_enable\<close>. The temperature measurements are inputs, see
  \<open>sensors\<close> below.
\<close>

datatype call =
    Hal_move pulse_generator
  | Hal_join
  | Hal_spindle_control real
  | Hal_fan_control bool
  | Heater_new heater real
  | Heater_stop heater
  | Heater_wait heater
  | Time_sleep real
  | Debug_enable

text \<open>
  What \<^verbatim>\<open>hal.get_extruder_temperature\<close> and \<^verbatim>\<open>hal.get_bed_temperature\<close> return
  during one command: a reading, or \<open>None\<close> when the call raises \<^verbatim>\<open>IOError\<close> or
  \<^verbatim>\<open>OSError\<close>.
\<close>

record sensors =
  get_extruder_temperature :: "real option"
  get_bed_temperature :: "real option"

section \<open>The command record\<close>

text \<open>
  The class \<^verbatim>\<open>GCode\<close> (module \<^verbatim>\<open>cnc.gcode\<close>) is not among the sources. The machine
  uses six methods of a command; a command is modelled as the record of what these
  methods return, so every result holds for every implementation of them.
  Parameter names are strings (\<^verbatim>\<open>'F'\<close>, \<^verbatim>\<open>'P'\<close>, \<^verbatim>\<open>'S'\<close>).
\<close>

record gcode =
  command :: "string option"
  has_coordinates :: bool
  coordinates :: "coordinates \<Rightarrow> real \<Rightarrow> coordinates"
  radius :: "coordinates \<Rightarrow> real \<Rightarrow> coordinates"
  get :: "string \<Rightarrow> real \<Rightarrow> real"
  has :: "string \<Rightarrow> bool"

text \<open>
  Modelled from the spec: a command built from its identifier and its numeric
  parameters, used for concrete inputs only. The spec (2, 6): ``optional command
  identifier, parameter lookup, and derived coordinate/radius vectors given a reference
  origin and unit-scale factor''. A coordinate that is absent is that of the reference
  origin; one that is present is scaled by the unit factor. The coordinates are the
  parameters X, Y, Z, E and the radius is I, J, K.
\<close>

definition param :: "(string \<times> real) list \<Rightarrow> string \<Rightarrow> real \<Rightarrow> real \<Rightarrow> real" where
  "param ps n d m = (case map_of ps n of None \<Rightarrow> d | Some v \<Rightarrow> v * m)"

definition GCode :: "string option \<Rightarrow> (string \<times> real) list \<Rightarrow> gcode" where
  "GCode c ps =
     \<lparr> command = c,
       has_coordinates = (''X'' \<in> dom (map_of ps) \<or> ''Y'' \<in> dom (map_of ps) \<or>
                          ''Z'' \<in> dom (map_of ps) \<or> ''E'' \<in> dom (map_of ps)),
       coordinates = (\<lambda>d m. Coordinates (param ps ''X'' (x d) m) (param ps ''Y'' (y d) m)
                                        (param ps ''Z'' (z d) m) (param ps ''E'' (e d) m)),
       radius = (\<lambda>d m. Coordinates (param ps ''I'' (x d) m) (param ps ''J'' (y d) m)
                                   (param ps ''K'' (z d) m) 0),
       get = (\<lambda>n d. param ps n d 1),
       has = (\<lambda>n. n \<in> dom (map_of ps)) \<rparr>"

section \<open>The machine state\<close>

text \<open>
  The fields of \<^verbatim>\<open>GMachine\<close>, and with them \<open>calls\<close>, the calls made so far to the
  hardware layer and the other collaborators. \<open>heaters\<close> maps a heater to the target
  temperature of its running \<^verbatim>\<open>Heater\<close> object.
\<close>

record gmachine =
  position :: coordinates
  velocity :: real
  spindle_rpm :: real
  pause :: real
  local :: coordinates
  convertCoordinates :: real
  absoluteCoordinates :: bool
  plane :: plane
  fan_state :: bool
  heaters :: "heater \<rightharpoonup> real"
  calls :: "call list"

definition reset :: "gmachine \<Rightarrow> gmachine" where
  "reset s = s\<lparr> velocity := 1000, spindle_rpm := 1000, pause := 0,
               local := Coordinates 0 0 0 0, convertCoordinates := 1,
               absoluteCoordinates := True, plane := PLANE_XY \<rparr>"

text \<open>
  The state after \<^verbatim>\<open>__init__\<close>: the fields as initialised, then \<^verbatim>\<open>reset()\<close>. The
  plane is \<^verbatim>\<open>None\<close> only before that call of \<^verbatim>\<open>reset\<close>; \<^verbatim>\<open>hal.init()\<close> starts
  the record of calls.
\<close>

definition init :: gmachine where
  "init = reset \<lparr> position = Coordinates 0 0 0 0, velocity = 0, spindle_rpm = 0, pause = 0,
                  local = Coordinates 0 0 0 0, convertCoordinates = 0,
                  absoluteCoordinates = False, plane = PLANE_XY, fan_state = False,
                  heaters = Map.empty, calls = [] \<rparr>"

section \<open>The motion planner\<close>

text \<open>
  A method that can raise returns the exception, if any, together with the state at
  that moment: \<open>(None, s')\<close> is a normal return.

  \<^verbatim>\<open>delta.round(1.0 / STEPPER_PULSES_PER_MM_X, ..., 1.0 / STEPPER_PULSES_PER_MM_E)\<close>,
  the expression that quantizes a vector to the resolution of the steppers; a constant
  that is zero makes the division raise.
\<close>

definition round_to_steps :: "config \<Rightarrow> coordinates \<Rightarrow> exn + coordinates" where
  "round_to_steps cfg c =
     (if STEPPER_PULSES_PER_MM_X cfg = 0 \<or> STEPPER_PULSES_PER_MM_Y cfg = 0 \<or>
         STEPPER_PULSES_PER_MM_Z cfg = 0 \<or> STEPPER_PULSES_PER_MM_E cfg = 0
      then Inl ZeroDivisionError
      else Inr (round_c c (1 / STEPPER_PULSES_PER_MM_X cfg) (1 / STEPPER_PULSES_PER_MM_Y cfg)
                          (1 / STEPPER_PULSES_PER_MM_Z cfg) (1 / STEPPER_PULSES_PER_MM_E cfg)))"

definition table :: "config \<Rightarrow> coordinates" where
  "table cfg = Coordinates (TABLE_SIZE_X_MM cfg) (TABLE_SIZE_Y_MM cfg) (TABLE_SIZE_Z_MM cfg) 0"

definition check_delta :: "config \<Rightarrow> coordinates \<Rightarrow> gmachine \<Rightarrow> exn option" where
  "check_delta cfg delta s =
     (let pos = position s + delta
      in if \<not> is_in_aabb pos (Coordinates 0 0 0 0) (table cfg)
         then Some (GMachineException ''out of effective area'')
         else None)"

definition move_linear :: "config \<Rightarrow> coordinates \<Rightarrow> real \<Rightarrow> gmachine \<Rightarrow> exn option \<times> gmachine" where
  "move_linear cfg delta0 velocity' s =
     (case round_to_steps cfg delta0 of
        Inl ex \<Rightarrow> (Some ex, s)
      | Inr delta \<Rightarrow>
          if is_zero delta then (None, s)
          else (case check_delta cfg delta s of
                  Some ex \<Rightarrow> (Some ex, s)
                | None \<Rightarrow>
                    let s1 = s\<lparr>calls := calls s @ [Hal_move (PulseGeneratorLinear delta velocity')]\<rparr>
                    in (None, s1\<lparr>position := position s1 + delta\<rparr>)))"

text \<open>
  \<^verbatim>\<open>__quarter\<close>. The fourth test of the source is the last branch here: on the reals
  it holds whenever the first three fail (lemma \<open>quarter_tests_exhaustive\<close>), so the
  implicit \<^verbatim>\<open>return None\<close> after it is never reached.
\<close>

definition quarter :: "real \<Rightarrow> real \<Rightarrow> int" where
  "quarter pa pb =
     (if pa \<ge> 0 \<and> pb \<ge> 0 then 1
      else if pa < 0 \<and> pb \<ge> 0 then 2
      else if pa < 0 \<and> pb < 0 then 3
      else 4)"

definition math_sqrt :: "real \<Rightarrow> exn + real" where
  "math_sqrt v = (if v < 0 then Inl ValueError else Inr (sqrt v))"

definition copysign :: "real \<Rightarrow> real \<Rightarrow> real" where
  "copysign a b = (if b < 0 then - \<bar>a\<bar> else \<bar>a\<bar>)"

text \<open>
  The loop \<^verbatim>\<open>for _ in range(0, 4)\<close> of \<^verbatim>\<open>__adjust_circle\<close>, with the number of
  iterations left as first argument: \<open>None\<close> when the loop ends or breaks, the exception
  when it raises.
\<close>

fun walk :: "nat \<Rightarrow> direction \<Rightarrow> int \<Rightarrow> int \<Rightarrow> int \<Rightarrow> real \<Rightarrow> real \<Rightarrow> real \<Rightarrow> real \<Rightarrow> real \<Rightarrow>
    real \<Rightarrow> real \<Rightarrow> exn option" where
  "walk 0 direction eq q pq pa pb ra rb r ma mb = None"
| "walk (Suc n) direction eq q pq pa pb ra rb r ma mb =
     (let q1 = (if direction = CW then q - 1 else q + 1);
          q2 = (if q1 \<le> 0 then 4 else if q1 \<ge> 5 then 1 else q1)
      in if q2 = eq then None
         else
           let is_raise =
                 (if (pq = 1 \<and> q2 = 4) \<or> (pq = 4 \<and> q2 = 1) then pa + ra + r > ma
                  else if (pq = 1 \<and> q2 = 2) \<or> (pq = 2 \<and> q2 = 1) then pb + rb + r > mb
                  else if (pq = 2 \<and> q2 = 3) \<or> (pq = 3 \<and> q2 = 2) then pa + ra - r < 0
                  else if (pq = 3 \<and> q2 = 4) \<or> (pq = 4 \<and> q2 = 3) then pb + rb - r < 0
                  else False)
           in if is_raise then Some (GMachineException ''out of effective area'')
              else walk n direction eq q2 q2 pa pb ra rb r ma mb)"

definition adjust_circle :: "real \<Rightarrow> real \<Rightarrow> real \<Rightarrow> real \<Rightarrow> direction \<Rightarrow> real \<Rightarrow> real \<Rightarrow> real \<Rightarrow>
    real \<Rightarrow> exn + real \<times> real" where
  "adjust_circle da db ra rb direction pa pb ma mb =
     (case math_sqrt (ra * ra + rb * rb) of
        Inl ex \<Rightarrow> Inl ex
      | Inr r \<Rightarrow>
          if r = 0 then Inl (GMachineException ''circle radius is zero'')
          else
            let sq = quarter (- ra) (- rb)
            in (case (if da = 0 \<and> db = 0 then Inr (da, db, 5)
                     else if da - ra = 0 then Inl ZeroDivisionError
                     else
                       let b = (db - rb) / (da - ra)
                       in (case math_sqrt (r * r / (1 + \<bar>b\<bar>)) of
                             Inl ex \<Rightarrow> Inl ex
                           | Inr s1 \<Rightarrow>
                               let ea = copysign s1 (da - ra)
                               in (case math_sqrt (r * r - ea * ea) of
                                     Inl ex \<Rightarrow> Inl ex
                                   | Inr s2 \<Rightarrow>
                                       let eb = copysign s2 (db - rb);
                                           eq = quarter ea eb
                                       in Inr (ea + ra, eb + rb, eq)))) of
                 Inl ex \<Rightarrow> Inl ex
               | Inr (ea, eb, eq) \<Rightarrow>
                   (case walk 4 direction eq sq sq pa pb ra rb r ma mb of
                      Some ex \<Rightarrow> Inl ex
                    | None \<Rightarrow> Inr (ea, eb))))"

definition circular :: "config \<Rightarrow> coordinates \<Rightarrow> coordinates \<Rightarrow> real \<Rightarrow> direction \<Rightarrow> gmachine \<Rightarrow>
    exn option \<times> gmachine" where
  "circular cfg delta0 radius0 velocity' direction s =
     (case round_to_steps cfg delta0 of
        Inl ex \<Rightarrow> (Some ex, s)
      | Inr delta \<Rightarrow>
     (case round_to_steps cfg radius0 of
        Inl ex \<Rightarrow> (Some ex, s)
      | Inr radius' \<Rightarrow>
     (case check_delta cfg delta s of
        Some ex \<Rightarrow> (Some ex, s)
      | None \<Rightarrow>
     (case (case plane s of
              PLANE_XY \<Rightarrow>
                (case adjust_circle (x delta) (y delta) (x radius') (y radius') direction
                        (x (position s)) (y (position s))
                        (TABLE_SIZE_X_MM cfg) (TABLE_SIZE_Y_MM cfg) of
                   Inl ex \<Rightarrow> Inl ex
                 | Inr (a, b) \<Rightarrow> Inr (Coordinates a b (z delta) (e delta)))
            | PLANE_YZ \<Rightarrow>
                (case adjust_circle (y delta) (z delta) (y radius') (z radius') direction
                        (y (position s)) (z (position s))
                        (TABLE_SIZE_Y_MM cfg) (TABLE_SIZE_Z_MM cfg) of
                   Inl ex \<Rightarrow> Inl ex
                 | Inr (a, b) \<Rightarrow> Inr (Coordinates (x delta) a b (e delta)))
            | PLANE_ZX \<Rightarrow>
                (case adjust_circle (z delta) (x delta) (z radius') (x radius') direction
                        (z (position s)) (x (position s))
                        (TABLE_SIZE_Z_MM cfg) (TABLE_SIZE_X_MM cfg) of
                   Inl ex \<Rightarrow> Inl ex
                 | Inr (a, b) \<Rightarrow> Inr (Coordinates b (y delta) a (e delta)))) of
        Inl ex \<Rightarrow> (Some ex, s)
      | Inr circle_end0 \<Rightarrow>
     (case round_to_steps cfg circle_end0 of
        Inl ex \<Rightarrow> (Some ex, s)
      | Inr circle_end \<Rightarrow>
          let s1 = s\<lparr>calls := calls s @
                      [Hal_move (PulseGeneratorCircular circle_end radius' (plane s) direction
                         velocity')]\<rparr>;
              linear_delta = delta - circle_end;
              s2 = (if \<not> is_zero linear_delta
                    then s1\<lparr>calls := calls s1 @
                             [Hal_move (PulseGeneratorLinear linear_delta velocity')]\<rparr>
                    else s1)
          in (None, s2\<lparr>position := position s2 + circle_end + linear_delta\<rparr>))))))"

definition home :: "config \<Rightarrow> gmachine \<Rightarrow> exn option \<times> gmachine" where
  "home cfg s =
     (let d = Coordinates 0 0 (- z (position s)) 0
      in case move_linear cfg d (STEPPER_MAX_VELOCITY_MM_PER_MIN cfg) s of
           (Some ex, s1) \<Rightarrow> (Some ex, s1)
         | (None, s1) \<Rightarrow>
             let d = Coordinates (- x (position s1)) (- y (position s1)) 0 0
             in move_linear cfg d (STEPPER_MAX_VELOCITY_MM_PER_MIN cfg) s1)"

section \<open>The machine: actuators and command dispatch\<close>

definition spindle :: "config \<Rightarrow> real \<Rightarrow> gmachine \<Rightarrow> exn option \<times> gmachine" where
  "spindle cfg spindle_speed s =
     (let s1 = s\<lparr>calls := calls s @ [Hal_join]\<rparr>
      in if SPINDLE_MAX_RPM cfg = 0 then (Some ZeroDivisionError, s1)
         else (None, s1\<lparr>calls := calls s1 @
                 [Hal_spindle_control (100 * spindle_speed / SPINDLE_MAX_RPM cfg)]\<rparr>))"

definition fan :: "bool \<Rightarrow> gmachine \<Rightarrow> gmachine" where
  "fan state s = s\<lparr>calls := calls s @ [Hal_fan_control state], fan_state := state\<rparr>"

text \<open>
  \<^verbatim>\<open>_heat\<close>. The heater is one of the two of the enumeration, so the source's branch
  ``unknown heater'' has no counterpart. \<^verbatim>\<open>measure()\<close> is the sensor of the heater.
\<close>

definition heat :: "sensors \<Rightarrow> heater \<Rightarrow> real \<Rightarrow> bool \<Rightarrow> gmachine \<Rightarrow> exn option \<times> gmachine" where
  "heat env heater temperature wait s =
     (case (case heater of
              HEATER_EXTRUDER \<Rightarrow> get_extruder_temperature env
            | HEATER_BED \<Rightarrow> get_bed_temperature env) of
        None \<Rightarrow> (Some (GMachineException ''can not measure temperature''), s)
      | Some m \<Rightarrow>
          let s1 = (if heaters s heater \<noteq> None
                    then s\<lparr>calls := calls s @ [Heater_stop heater],
                           heaters := (heaters s)(heater := None)\<rparr>
                    else s)
          in if temperature \<noteq> 0
             then
               let s2 = s1\<lparr>calls := calls s1 @ [Heater_new heater temperature],
                            heaters := (heaters s1)(heater \<mapsto> temperature)\<rparr>
               in (None, if wait then s2\<lparr>calls := calls s2 @ [Heater_wait heater]\<rparr> else s2)
             else (None, s1))"

text \<open>
  The answer of a command: the source formats a string from these values
  (\<^verbatim>\<open>"E:{} B:{}"\<close> and \<^verbatim>\<open>"X:{} Y:{} Z:{} E:{}"\<close>).
\<close>

datatype answer =
    Temperature_answer "real option" "real option"
  | Position_answer real real real real

definition returned :: "exn option \<times> gmachine \<Rightarrow> (exn + answer option) \<times> gmachine" where
  "returned r = (case r of (Some ex, s) \<Rightarrow> (Inl ex, s) | (None, s) \<Rightarrow> (Inr None, s))"

text \<open>
  The chain \<^verbatim>\<open>if c == 'G0': ... else: raise GMachineException("unknown command")\<close> of
  \<^verbatim>\<open>do_command\<close>, with the values read from the command before it.
\<close>

definition select_command :: "config \<Rightarrow> sensors \<Rightarrow> gcode \<Rightarrow> string option \<Rightarrow> coordinates \<Rightarrow>
    coordinates \<Rightarrow> real \<Rightarrow> real \<Rightarrow> gmachine \<Rightarrow> (exn + answer option) \<times> gmachine" where
  "select_command cfg env gcode c delta radius' velocity' pause' s =
     (if c = Some ''G0'' then
        returned (move_linear cfg delta (STEPPER_MAX_VELOCITY_MM_PER_MIN cfg) s)
      else if c = Some ''G1'' then returned (move_linear cfg delta velocity' s)
      else if c = Some ''G2'' then returned (circular cfg delta radius' velocity' CW s)
      else if c = Some ''G3'' then returned (circular cfg delta radius' velocity' CCW s)
      else if c = Some ''G4'' then
        (Inr None, s\<lparr>calls := calls s @ [Hal_join, Time_sleep pause']\<rparr>)
      else if c = Some ''G17'' then (Inr None, s\<lparr>plane := PLANE_XY\<rparr>)
      else if c = Some ''G18'' then (Inr None, s\<lparr>plane := PLANE_ZX\<rparr>)
      else if c = Some ''G19'' then (Inr None, s\<lparr>plane := PLANE_YZ\<rparr>)
      else if c = Some ''G20'' then (Inr None, s\<lparr>convertCoordinates := 25.4\<rparr>)
      else if c = Some ''G21'' then (Inr None, s\<lparr>convertCoordinates := 1\<rparr>)
      else if c = Some ''G28'' then returned (home cfg s)
      else if c = Some ''G53'' then (Inr None, s\<lparr>local := Coordinates 0 0 0 0\<rparr>)
      else if c = Some ''G90'' then (Inr None, s\<lparr>absoluteCoordinates := True\<rparr>)
      else if c = Some ''G91'' then (Inr None, s\<lparr>absoluteCoordinates := False\<rparr>)
      else if c = Some ''G92'' then
        (Inr None, s\<lparr>local := position s -
                      coordinates gcode (Coordinates 0 0 0 0) (convertCoordinates s)\<rparr>)
      else if c = Some ''M3'' then
        (let spindle_rpm' = get gcode ''S'' (spindle_rpm s)
         in if spindle_rpm' < 0 \<or> spindle_rpm' > SPINDLE_MAX_RPM cfg
            then (Inl (GMachineException ''bad spindle speed''), s)
            else (case spindle cfg spindle_rpm' s of
                    (Some ex, s1) \<Rightarrow> (Inl ex, s1)
                  | (None, s1) \<Rightarrow> (Inr None, s1\<lparr>spindle_rpm := spindle_rpm'\<rparr>)))
      else if c = Some ''M5'' then returned (spindle cfg 0 s)
      else if c = Some ''M2'' \<or> c = Some ''M30'' then (Inr None, reset s)
      else if c = Some ''M104'' \<or> c = Some ''M109'' \<or> c = Some ''M140'' \<or> c = Some ''M190''
      then
        (case (if c = Some ''M104'' \<or> c = Some ''M109'' then Inr HEATER_EXTRUDER
               else if c = Some ''M140'' \<or> c = Some ''M190'' then Inr HEATER_BED
               else Inl (Exception ''Unexpected heater command'')) of
           Inl ex \<Rightarrow> (Inl ex, s)
         | Inr heater \<Rightarrow>
             (let wait = (c = Some ''M109'' \<or> c = Some ''M190'')
              in if \<not> has gcode ''S''
                 then (Inl (GMachineException ''temperature is not specified''), s)
                 else
                   let t = get gcode ''S'' 0
                   in if ((heater = HEATER_EXTRUDER \<and> t > EXTRUDER_MAX_TEMPERATURE cfg) \<or>
                          (heater = HEATER_BED \<and> t > BED_MAX_TEMPERATURE cfg) \<or>
                          t < MIN_TEMPERATURE cfg) \<and> t \<noteq> 0
                      then (Inl (GMachineException ''bad temperature''), s)
                      else returned (heat env heater t wait s)))
      else if c = Some ''M105'' then
        (let et = get_extruder_temperature env;
             bt = get_bed_temperature env
         in if et = None \<and> bt = None
            then (Inl (GMachineException ''can not measure temperature''), s)
            else (Inr (Some (Temperature_answer et bt)), s))
      else if c = Some ''M106'' then
        (if get gcode ''S'' 1 \<noteq> 0 then (Inr None, fan True s) else (Inr None, fan False s))
      else if c = Some ''M107'' then (Inr None, fan False s)
      else if c = Some ''M111'' then (Inr None, s\<lparr>calls := calls s @ [Debug_enable]\<rparr>)
      else if c = Some ''M114'' then
        (let s1 = s\<lparr>calls := calls s @ [Hal_join, Hal_join]\<rparr>;
             p = position s1
         in (Inr (Some (Position_answer (x p) (y p) (z p) (e p))), s1))
      else if c = None then (Inr None, s)
      else (Inl (GMachineException ''unknown command''), s))"

text \<open>
  \<^verbatim>\<open>do_command\<close>: the exception or the answer, and the state the call leaves. The
  argument is \<open>None\<close> for \<^verbatim>\<open>gcode is None\<close>.
\<close>

definition do_command :: "config \<Rightarrow> sensors \<Rightarrow> gcode option \<Rightarrow> gmachine \<Rightarrow>
    (exn + answer option) \<times> gmachine" where
  "do_command cfg env g s =
     (case g of
        None \<Rightarrow> (Inr None, s)
      | Some gcode \<Rightarrow>
          let c0 = command gcode;
              c = (if c0 = None \<and> has_coordinates gcode then Some ''G1'' else c0);
              delta = (if absoluteCoordinates s
                       then (coordinates gcode (position s) (convertCoordinates s) + local s)
                            - position s
                       else coordinates gcode (Coordinates 0 0 0 0) (convertCoordinates s));
              velocity' = get gcode ''F'' (velocity s);
              pause' = get gcode ''P'' (pause s);
              radius' = radius gcode (Coordinates 0 0 0 0) (convertCoordinates s)
          in if velocity' \<le> 0 \<or> velocity' > STEPPER_MAX_VELOCITY_MM_PER_MIN cfg
             then (Inl (GMachineException ''bad feed speed''), s)
             else if pause' < 0 then (Inl (GMachineException ''bad delay''), s)
             else (case select_command cfg env gcode c delta radius' velocity' pause' s of
                     (Inl ex, s1) \<Rightarrow> (Inl ex, s1)
                   | (Inr answer, s1) \<Rightarrow>
                       (Inr answer, s1\<lparr>velocity := velocity', pause := pause'\<rparr>)))"

text \<open>
  A caller that sends commands one after the other, whatever each of them returns or
  raises; every command comes with the sensor readings of its moment.
\<close>

fun run :: "config \<Rightarrow> (sensors \<times> gcode option) list \<Rightarrow> gmachine \<Rightarrow> gmachine" where
  "run cfg [] s = s"
| "run cfg (c # cs) s = run cfg cs (snd (do_command cfg (fst c) (snd c) s))"

text \<open>A configuration and sensor readings for concrete runs.\<close>

definition example_config :: config where
  "example_config =
     \<lparr> TABLE_SIZE_X_MM = 200, TABLE_SIZE_Y_MM = 300, TABLE_SIZE_Z_MM = 48,
       STEPPER_PULSES_PER_MM_X = 400, STEPPER_PULSES_PER_MM_Y = 400,
       STEPPER_PULSES_PER_MM_Z = 400, STEPPER_PULSES_PER_MM_E = 150,
       STEPPER_MAX_VELOCITY_MM_PER_MIN = 1800, SPINDLE_MAX_RPM = 10000,
       EXTRUDER_MAX_TEMPERATURE = 250, BED_MAX_TEMPERATURE = 100, MIN_TEMPERATURE = 40 \<rparr>"

definition example_sensors :: sensors where
  "example_sensors = \<lparr> get_extruder_temperature = Some 20, get_bed_temperature = Some 20 \<rparr>"

section \<open>Vocabulary of the properties\<close>

text \<open>
  The two components of a vector in the plane of a circular move, in the order in which
  \<^verbatim>\<open>_circular\<close> passes them to \<^verbatim>\<open>__adjust_circle\<close>.
\<close>

definition in_plane :: "plane \<Rightarrow> coordinates \<Rightarrow> real \<times> real" where
  "in_plane p c =
     (case p of PLANE_XY \<Rightarrow> (x c, y c) | PLANE_YZ \<Rightarrow> (y c, z c) | PLANE_ZX \<Rightarrow> (z c, x c))"

text \<open>A vector whose components are whole numbers of steps.\<close>

definition on_grid :: "config \<Rightarrow> coordinates \<Rightarrow> bool" where
  "on_grid cfg c \<longleftrightarrow>
     x c * STEPPER_PULSES_PER_MM_X cfg \<in> \<int> \<and> y c * STEPPER_PULSES_PER_MM_Y cfg \<in> \<int> \<and>
     z c * STEPPER_PULSES_PER_MM_Z cfg \<in> \<int> \<and> e c * STEPPER_PULSES_PER_MM_E cfg \<in> \<int>"

text \<open>
  What every command preserves: the position is inside the travel envelope and on the
  grid of the steppers.
\<close>

definition invariant :: "config \<Rightarrow> gmachine \<Rightarrow> bool" where
  "invariant cfg s \<longleftrightarrow>
     is_in_aabb (position s) (Coordinates 0 0 0 0) (table cfg) \<and> on_grid cfg (position s)"

section \<open>Quantization\<close>

lemma py_round_of_int: "py_round (of_int n) = n"
  by (simp add: py_round_def)

text \<open>
  Claim C9. Quantization is idempotent: rounding each component of a vector to the
  nearest multiple of its resolution, and rounding the result again with the same
  resolutions, gives the result of the first rounding. This holds for every vector and
  every resolution tuple.
\<close>

theorem round_c_idempotent:
  "round_c (round_c v rx ry rz re) rx ry rz re = round_c v rx ry rz re"
  by (simp add: round_c_def py_round_of_int)

section \<open>Coordinate arithmetic and the invariant\<close>

lemma plus_sel [simp]:
  "x (a + b) = x a + x b" "y (a + b) = y a + y b" "z (a + b) = z a + z b" "e (a + b) = e a + e b"
  by (simp_all add: plus_coordinates_def)

lemma minus_sel [simp]:
  "x (a - b) = x a - x b" "y (a - b) = y a - y b" "z (a - b) = z a - z b" "e (a - b) = e a - e b"
  by (simp_all add: minus_coordinates_def)

lemma add_residual: "p + c + (d - c) = p + (d :: coordinates)"
  by (rule coordinates.expand) simp

lemma add_zero: "is_zero d \<Longrightarrow> p + d = p"
  by (rule coordinates.expand) (simp add: is_zero_def)

lemma round_to_steps_Inr:
  "round_to_steps cfg c = Inr d \<Longrightarrow> round_to_steps cfg c' =
     Inr (round_c c' (1 / STEPPER_PULSES_PER_MM_X cfg) (1 / STEPPER_PULSES_PER_MM_Y cfg)
                          (1 / STEPPER_PULSES_PER_MM_Z cfg) (1 / STEPPER_PULSES_PER_MM_E cfg))"
  by (simp add: round_to_steps_def split: if_splits)

lemma round_to_steps_on_grid: "round_to_steps cfg c = Inr d \<Longrightarrow> on_grid cfg d"
  by (auto simp add: round_to_steps_def on_grid_def round_c_def split: if_splits)

lemma on_grid_add: "on_grid cfg a \<Longrightarrow> on_grid cfg b \<Longrightarrow> on_grid cfg (a + b)"
  by (simp add: on_grid_def distrib_right)

lemma move_linear_cases:
  "move_linear cfg delta0 v s = (r, s') \<Longrightarrow>
     s' = s \<or>
     (\<exists>d. r = None \<and> round_to_steps cfg delta0 = Inr d \<and> check_delta cfg d s = None \<and> \<not> is_zero d \<and>
        s' = s\<lparr>calls := calls s @ [Hal_move (PulseGeneratorLinear d v)], position := position s + d\<rparr>)"
  by (auto simp add: move_linear_def Let_def split: sum.splits if_splits option.splits)

lemma check_delta_None:
  "check_delta cfg d s = None \<longleftrightarrow> is_in_aabb (position s + d) (Coordinates 0 0 0 0) (table cfg)"
  by (simp add: check_delta_def Let_def)

lemma move_linear_invariant:
  assumes "invariant cfg s"
  shows "invariant cfg (snd (move_linear cfg delta0 v s))"
proof -
  obtain r s' where m: "move_linear cfg delta0 v s = (r, s')" by (cases "move_linear cfg delta0 v s")
  from move_linear_cases [OF m] assms show ?thesis
    unfolding m by (auto simp add: invariant_def check_delta_None round_to_steps_on_grid on_grid_add)
qed

lemma circular_cases:
  "circular cfg delta0 radius0 v direction s = (r, s') \<Longrightarrow>
     (r \<noteq> None \<and> s' = s) \<or>
     (\<exists>d. r = None \<and> round_to_steps cfg delta0 = Inr d \<and> check_delta cfg d s = None \<and>
          position s' = position s + d)"
  by (auto simp add: circular_def Let_def add_residual split: sum.splits if_splits option.splits)

lemma circular_invariant:
  assumes "invariant cfg s"
  shows "invariant cfg (snd (circular cfg delta0 radius0 v direction s))"
proof -
  obtain r s' where m: "circular cfg delta0 radius0 v direction s = (r, s')"
    by (cases "circular cfg delta0 radius0 v direction s")
  from circular_cases [OF m] assms show ?thesis
    unfolding m by (auto simp add: invariant_def check_delta_None round_to_steps_on_grid on_grid_add)
qed

lemma home_invariant:
  assumes "invariant cfg s"
  shows "invariant cfg (snd (home cfg s))"
proof -
  let ?v = "STEPPER_MAX_VELOCITY_MM_PER_MIN cfg"
  let ?d = "Coordinates 0 0 (- z (position s)) 0"
  obtain r s1 where m: "move_linear cfg ?d ?v s = (r, s1)" by (cases "move_linear cfg ?d ?v s")
  have i1: "invariant cfg s1" using move_linear_invariant [OF assms, of ?d ?v] by (simp add: m)
  show ?thesis
  proof (cases r)
    case None
    then show ?thesis using move_linear_invariant [OF i1] by (simp add: home_def m Let_def)
  next
    case (Some ex)
    then show ?thesis using i1 by (simp add: home_def m Let_def)
  qed
qed


lemma snd_returned [simp]: "snd (returned r) = snd r"
  by (simp add: returned_def split: prod.splits option.splits)

lemma spindle_position [simp]: "position (snd (spindle cfg v s)) = position s"
  by (simp add: spindle_def Let_def)

lemma heat_position [simp]: "position (snd (heat env h t w s)) = position s"
  by (simp add: heat_def Let_def split: option.splits heater.splits)

lemma select_command_position:
  "position (snd (select_command cfg env g c delta rad v p s)) \<in>
     {position s,
      position (snd (move_linear cfg delta (STEPPER_MAX_VELOCITY_MM_PER_MIN cfg) s)),
      position (snd (move_linear cfg delta v s)),
      position (snd (circular cfg delta rad v CW s)),
      position (snd (circular cfg delta rad v CCW s)),
      position (snd (home cfg s))}"
proof -
  define Q where "Q = (\<lambda>r :: (exn + answer option) \<times> gmachine. position (snd r) \<in>
     {position s,
      position (snd (move_linear cfg delta (STEPPER_MAX_VELOCITY_MM_PER_MIN cfg) s)),
      position (snd (move_linear cfg delta v s)),
      position (snd (circular cfg delta rad v CW s)),
      position (snd (circular cfg delta rad v CCW s)),
      position (snd (home cfg s))})"
  have both: "\<And>b u w. Q u \<Longrightarrow> Q w \<Longrightarrow> Q (if b then u else w)" by simp
  have "Q (select_command cfg env g c delta rad v p s)"
    unfolding select_command_def
    apply (intro both)
    apply (simp_all add: Q_def Let_def reset_def fan_def spindle_def split: sum.splits)
    done
  then show ?thesis by (simp add: Q_def)
qed

lemma invariant_position: "position s' = position s \<Longrightarrow> invariant cfg s' = invariant cfg s"
  by (simp add: invariant_def)

lemma select_command_invariant:
  assumes "invariant cfg s"
  shows "invariant cfg (snd (select_command cfg env g c delta rad v p s))"
proof -
  let ?s' = "snd (select_command cfg env g c delta rad v p s)"
  have "\<exists>t. invariant cfg t \<and> position ?s' = position t"
    using select_command_position [of cfg env g c delta rad v p s]
      assms move_linear_invariant [OF assms] circular_invariant [OF assms] home_invariant [OF assms]
    by (elim insertE) (simp_all, metis+)
  then show ?thesis by (auto simp add: invariant_def)
qed

lemma do_command_position:
  "position (snd (do_command cfg env (Some gcode) s)) = position s \<or>
   position (snd (do_command cfg env (Some gcode) s)) =
     position (snd (select_command cfg env gcode
       (if command gcode = None \<and> has_coordinates gcode then Some ''G1'' else command gcode)
       (if absoluteCoordinates s
        then (coordinates gcode (position s) (convertCoordinates s) + local s) - position s
        else coordinates gcode (Coordinates 0 0 0 0) (convertCoordinates s))
       (radius gcode (Coordinates 0 0 0 0) (convertCoordinates s))
       (get gcode ''F'' (velocity s)) (get gcode ''P'' (pause s)) s))"
  unfolding do_command_def Let_def
  by (simp split: prod.splits sum.splits)

lemma do_command_invariant:
  assumes "invariant cfg s"
  shows "invariant cfg (snd (do_command cfg env g s))"
proof (cases g)
  case None
  then show ?thesis using assms by (simp add: do_command_def)
next
  case (Some gcode)
  show ?thesis
    using do_command_position [of cfg env gcode s] select_command_invariant [OF assms] assms
    unfolding Some by (auto simp add: invariant_def)
qed

lemma run_invariant: "invariant cfg s \<Longrightarrow> invariant cfg (run cfg cs s)"
  by (induction cs arbitrary: s) (simp_all add: do_command_invariant)

lemma init_invariant:
  "0 \<le> TABLE_SIZE_X_MM cfg \<Longrightarrow> 0 \<le> TABLE_SIZE_Y_MM cfg \<Longrightarrow> 0 \<le> TABLE_SIZE_Z_MM cfg \<Longrightarrow>
     invariant cfg init"
  by (simp add: invariant_def init_def reset_def is_in_aabb_def table_def on_grid_def)


lemma quantize_on_grid:
  assumes "b \<noteq> 0" "v * b \<in> \<int>"
  shows "of_int (py_round (v * b)) / b = v"
proof -
  from assms(2) obtain n where n: "v * b = of_int n" by (auto elim: Ints_cases)
  then have "py_round (v * b) = n" by (simp add: py_round_of_int)
  then show ?thesis using n assms(1) by (simp add: field_simps)
qed

lemma round_to_steps_on_grid_id:
  assumes "round_to_steps cfg c0 = Inr d0" "on_grid cfg c"
  shows "round_to_steps cfg c = Inr c"
proof -
  from assms(1) have nz: "STEPPER_PULSES_PER_MM_X cfg \<noteq> 0" "STEPPER_PULSES_PER_MM_Y cfg \<noteq> 0"
      "STEPPER_PULSES_PER_MM_Z cfg \<noteq> 0" "STEPPER_PULSES_PER_MM_E cfg \<noteq> 0"
    by (simp_all add: round_to_steps_def split: if_splits)
  have "round_c c (1 / STEPPER_PULSES_PER_MM_X cfg) (1 / STEPPER_PULSES_PER_MM_Y cfg)
          (1 / STEPPER_PULSES_PER_MM_Z cfg) (1 / STEPPER_PULSES_PER_MM_E cfg) = c"
    using assms(2) nz unfolding round_c_def on_grid_def
    by (intro coordinates.expand) (simp add: quantize_on_grid)
  then show ?thesis using nz by (simp add: round_to_steps_def)
qed

lemma move_linear_to:
  assumes steps: "round_to_steps cfg c0 = Inr d0"
    and grid: "on_grid cfg d"
    and ok: "is_in_aabb (position s + d) (Coordinates 0 0 0 0) (table cfg)"
  shows "move_linear cfg d v s =
     (None, if is_zero d then s
            else s\<lparr>calls := calls s @ [Hal_move (PulseGeneratorLinear d v)],
                   position := position s + d\<rparr>)"
  using round_to_steps_on_grid_id [OF steps grid] ok
  by (simp add: move_linear_def check_delta_def Let_def)

lemma home_result:
  assumes steps: "round_to_steps cfg c0 = Inr d0" and inv: "invariant cfg s"
  shows "fst (home cfg s) = None \<and>
         position (snd (home cfg s)) = Coordinates 0 0 0 (e (position s)) \<and>
         calls (snd (home cfg s)) = calls s @
           (if z (position s) = 0 then []
            else [Hal_move (PulseGeneratorLinear (Coordinates 0 0 (- z (position s)) 0)
                    (STEPPER_MAX_VELOCITY_MM_PER_MIN cfg))]) @
           (if x (position s) = 0 \<and> y (position s) = 0 then []
            else [Hal_move (PulseGeneratorLinear
                    (Coordinates (- x (position s)) (- y (position s)) 0 0)
                    (STEPPER_MAX_VELOCITY_MM_PER_MIN cfg))])"
proof -
  let ?v = "STEPPER_MAX_VELOCITY_MM_PER_MIN cfg"
  let ?p = "position s"
  let ?d1 = "Coordinates 0 0 (- z ?p) 0"
  let ?d2 = "Coordinates (- x ?p) (- y ?p) 0 0"
  from inv have box: "is_in_aabb ?p (Coordinates 0 0 0 0) (table cfg)" and grid: "on_grid cfg ?p"
    by (simp_all add: invariant_def)
  have g1: "on_grid cfg ?d1" using grid by (simp add: on_grid_def)
  have g2: "on_grid cfg ?d2" using grid by (simp add: on_grid_def)
  have b1: "is_in_aabb (?p + ?d1) (Coordinates 0 0 0 0) (table cfg)"
    using box by (simp add: is_in_aabb_def table_def)
  define s1 where "s1 = (if is_zero ?d1 then s
      else s\<lparr>calls := calls s @ [Hal_move (PulseGeneratorLinear ?d1 ?v)], position := ?p + ?d1\<rparr>)"
  have m1: "move_linear cfg ?d1 ?v s = (None, s1)"
    unfolding s1_def by (rule move_linear_to [OF steps g1 b1])
  have p1: "position s1 = Coordinates (x ?p) (y ?p) 0 (e ?p)"
    unfolding s1_def by (cases ?p) (simp add: is_zero_def plus_coordinates_def)
  have b2: "is_in_aabb (position s1 + ?d2) (Coordinates 0 0 0 0) (table cfg)"
    using box by (simp add: p1 is_in_aabb_def table_def)
  have m2: "move_linear cfg ?d2 ?v s1 =
     (None, if is_zero ?d2 then s1
            else s1\<lparr>calls := calls s1 @ [Hal_move (PulseGeneratorLinear ?d2 ?v)],
                   position := position s1 + ?d2\<rparr>)"
    by (rule move_linear_to [OF steps g2 b2])
  have h: "home cfg s = move_linear cfg ?d2 ?v s1"
    by (simp add: home_def Let_def m1 p1)
  show ?thesis
    unfolding h m2 by (cases "position s") (simp add: p1 s1_def is_zero_def plus_coordinates_def)
qed

section \<open>The travel envelope\<close>

text \<open>
  Claim C1. Whatever commands \<^verbatim>\<open>do_command\<close> processes from the initial state, and
  whether each of them returns or raises, the stored position lies in the travel
  envelope from the origin to the table size (with 0 for the extruder axis) after every
  one of them, that is after the first \<open>n\<close> commands of the sequence for every \<open>n\<close>.
  \<^verbatim>\<open>_move_linear\<close> and \<^verbatim>\<open>_circular\<close>, from any state, leave the position as it was
  or store one that passed the bounds check. The table sizes are taken to be
  non-negative: otherwise the initial position itself is outside.
\<close>

theorem position_in_envelope:
  assumes "0 \<le> TABLE_SIZE_X_MM cfg" "0 \<le> TABLE_SIZE_Y_MM cfg" "0 \<le> TABLE_SIZE_Z_MM cfg"
  shows "is_in_aabb (position (run cfg (take n cs) init)) (Coordinates 0 0 0 0) (table cfg) \<and>
         (position (snd (move_linear cfg delta v s)) = position s \<or>
          is_in_aabb (position (snd (move_linear cfg delta v s))) (Coordinates 0 0 0 0) (table cfg)) \<and>
         (position (snd (circular cfg delta rad v direction s)) = position s \<or>
          is_in_aabb (position (snd (circular cfg delta rad v direction s)))
            (Coordinates 0 0 0 0) (table cfg))"
proof (intro conjI)
  have "invariant cfg (run cfg (take n cs) init)"
    by (rule run_invariant) (rule init_invariant [OF assms])
  then show "is_in_aabb (position (run cfg (take n cs) init)) (Coordinates 0 0 0 0) (table cfg)"
    by (simp add: invariant_def)
next
  obtain r s' where m: "move_linear cfg delta v s = (r, s')"
    by (cases "move_linear cfg delta v s")
  from move_linear_cases [OF m]
  show "position (snd (move_linear cfg delta v s)) = position s \<or>
        is_in_aabb (position (snd (move_linear cfg delta v s))) (Coordinates 0 0 0 0) (table cfg)"
    unfolding m by (auto simp add: check_delta_None)
next
  obtain r s' where m: "circular cfg delta rad v direction s = (r, s')"
    by (cases "circular cfg delta rad v direction s")
  from circular_cases [OF m]
  show "position (snd (circular cfg delta rad v direction s)) = position s \<or>
        is_in_aabb (position (snd (circular cfg delta rad v direction s)))
          (Coordinates 0 0 0 0) (table cfg)"
    unfolding m by (auto simp add: check_delta_None)
qed

text \<open>Quantization with the example configuration.\<close>

lemma example_steps:
  "round_to_steps example_config c =
     Inr (Coordinates (of_int (py_round (x c * 400)) / 400) (of_int (py_round (y c * 400)) / 400)
                      (of_int (py_round (z c * 400)) / 400) (of_int (py_round (e c * 150)) / 150))"
  by (simp add: round_to_steps_def example_config_def round_c_def)

lemma py_round_numeral [simp]: "py_round (numeral n) = numeral n" "py_round 0 = 0"
  using py_round_of_int [of "numeral n"] py_round_of_int [of 0] by simp_all

lemma py_round_neg_numeral [simp]: "py_round (- numeral n) = - numeral n"
  using py_round_of_int [of "- numeral n"] by simp

text \<open>Claim C1 at the example configuration, after two commands of a run of three.\<close>

theorem position_in_envelope_witness:
  "0 \<le> TABLE_SIZE_X_MM example_config \<and> 0 \<le> TABLE_SIZE_Y_MM example_config \<and>
   0 \<le> TABLE_SIZE_Z_MM example_config \<and>
   is_in_aabb (position (run example_config (take 2
        [(example_sensors, Some (GCode (Some ''G1'') [(''X'', 10)])),
         (example_sensors, Some (GCode (Some ''G1'') [(''X'', 500)])),
         (example_sensors, Some (GCode (Some ''G2'') [(''X'', 20), (''I'', 5)]))]) init))
      (Coordinates 0 0 0 0) (table example_config) \<and>
   (position (snd (move_linear example_config (Coordinates 10 0 0 0) 500 init)) = position init \<or>
    is_in_aabb (position (snd (move_linear example_config (Coordinates 10 0 0 0) 500 init)))
      (Coordinates 0 0 0 0) (table example_config)) \<and>
   (position (snd (circular example_config (Coordinates 10 0 0 0) (Coordinates 5 0 0 0) 500 CW init))
      = position init \<or>
    is_in_aabb (position (snd (circular example_config (Coordinates 10 0 0 0) (Coordinates 5 0 0 0)
      500 CW init))) (Coordinates 0 0 0 0) (table example_config))"
proof -
  have h: "0 \<le> TABLE_SIZE_X_MM example_config" "0 \<le> TABLE_SIZE_Y_MM example_config"
    "0 \<le> TABLE_SIZE_Z_MM example_config"
    by (simp_all add: example_config_def)
  show ?thesis using h position_in_envelope [OF h] by blast
qed

section \<open>Linear moves\<close>

text \<open>
  Claim C2. A linear move whose quantized delta would put the position outside the
  travel envelope on some axis raises the fault ``out of effective area''; the state,
  with the position and the calls to the hardware layer, is as before. The machine is
  in a state whose position is inside the envelope, as it is after every run (C1).
\<close>

theorem move_linear_out_of_range:
  assumes "round_to_steps cfg delta0 = Inr delta"
    and "is_in_aabb (position s) (Coordinates 0 0 0 0) (table cfg)"
    and "\<not> is_in_aabb (position s + delta) (Coordinates 0 0 0 0) (table cfg)"
  shows "move_linear cfg delta0 v s = (Some (GMachineException ''out of effective area''), s)"
proof -
  have "\<not> is_zero delta" using assms(2,3) by (auto simp add: add_zero)
  then show ?thesis using assms(1,3) by (simp add: move_linear_def check_delta_def Let_def)
qed

text \<open>Claim C2 at a move of 500 mm along X on a table of 200 mm.\<close>

theorem move_linear_out_of_range_witness:
  "round_to_steps example_config (Coordinates 500 0 0 0) = Inr (Coordinates 500 0 0 0) \<and>
   is_in_aabb (position init) (Coordinates 0 0 0 0) (table example_config) \<and>
   \<not> is_in_aabb (position init + Coordinates 500 0 0 0) (Coordinates 0 0 0 0) (table example_config) \<and>
   move_linear example_config (Coordinates 500 0 0 0) 1000 init =
     (Some (GMachineException ''out of effective area''), init)"
proof -
  have a: "round_to_steps example_config (Coordinates 500 0 0 0) = Inr (Coordinates 500 0 0 0)"
    by (simp add: example_steps)
  have b: "is_in_aabb (position init) (Coordinates 0 0 0 0) (table example_config)"
    by (simp add: init_def reset_def is_in_aabb_def table_def example_config_def)
  have c: "\<not> is_in_aabb (position init + Coordinates 500 0 0 0) (Coordinates 0 0 0 0)
      (table example_config)"
    by (simp add: init_def reset_def is_in_aabb_def table_def example_config_def)
  show ?thesis using a b c move_linear_out_of_range [OF a b c] by simp
qed

text \<open>
  Claim C7. A linear move whose delta quantizes to zero returns normally and leaves the
  whole state as it was: the position is unchanged and no motion segment is passed to
  the hardware layer.
\<close>

theorem move_linear_zero_noop:
  assumes "round_to_steps cfg delta0 = Inr delta" and "is_zero delta"
  shows "move_linear cfg delta0 v s = (None, s)"
  using assms by (simp add: move_linear_def)

lemma py_round_small: "py_round (2 / 5) = 0"
  by (simp add: py_round_def)

text \<open>Claim C7 at a move of one micrometre, less than half a step.\<close>

theorem move_linear_zero_noop_witness:
  "round_to_steps example_config (Coordinates (1 / 1000) 0 0 0) = Inr (Coordinates 0 0 0 0) \<and>
   is_zero (Coordinates 0 0 0 0) \<and>
   move_linear example_config (Coordinates (1 / 1000) 0 0 0) 1000 init = (None, init)"
proof -
  have a: "round_to_steps example_config (Coordinates (1 / 1000) 0 0 0) = Inr (Coordinates 0 0 0 0)"
    by (simp add: example_steps py_round_small)
  have b: "is_zero (Coordinates 0 0 0 0)" by (simp add: is_zero_def)
  show ?thesis using a b move_linear_zero_noop [OF a b] by simp
qed

section \<open>Homing\<close>

text \<open>
  Claim C8. From every state that a run of commands reaches, \<^verbatim>\<open>home()\<close> returns
  normally with the position (0, 0, 0, e), the extruder component \<open>e\<close> as before. The
  calls show the order: a linear segment that takes Z to zero (when Z is not zero
  already), then one that takes X and Y to zero (when they are not both zero), both at
  the maximal velocity. The pulses per millimetre are not zero and the table sizes are
  not negative.
\<close>

theorem home_from_reachable:
  assumes "STEPPER_PULSES_PER_MM_X cfg \<noteq> 0" "STEPPER_PULSES_PER_MM_Y cfg \<noteq> 0"
    "STEPPER_PULSES_PER_MM_Z cfg \<noteq> 0" "STEPPER_PULSES_PER_MM_E cfg \<noteq> 0"
    and "0 \<le> TABLE_SIZE_X_MM cfg" "0 \<le> TABLE_SIZE_Y_MM cfg" "0 \<le> TABLE_SIZE_Z_MM cfg"
    and "s = run cfg cs init"
  shows "fst (home cfg s) = None \<and>
         position (snd (home cfg s)) = Coordinates 0 0 0 (e (position s)) \<and>
         calls (snd (home cfg s)) = calls s @
           (if z (position s) = 0 then []
            else [Hal_move (PulseGeneratorLinear (Coordinates 0 0 (- z (position s)) 0)
                    (STEPPER_MAX_VELOCITY_MM_PER_MIN cfg))]) @
           (if x (position s) = 0 \<and> y (position s) = 0 then []
            else [Hal_move (PulseGeneratorLinear
                    (Coordinates (- x (position s)) (- y (position s)) 0 0)
                    (STEPPER_MAX_VELOCITY_MM_PER_MIN cfg))])"
proof -
  have steps: "round_to_steps cfg (Coordinates 0 0 0 0) =
      Inr (round_c (Coordinates 0 0 0 0) (1 / STEPPER_PULSES_PER_MM_X cfg)
        (1 / STEPPER_PULSES_PER_MM_Y cfg) (1 / STEPPER_PULSES_PER_MM_Z cfg)
        (1 / STEPPER_PULSES_PER_MM_E cfg))"
    using assms(1-4) by (simp add: round_to_steps_def)
  have inv: "invariant cfg s"
    unfolding assms(8) by (rule run_invariant) (rule init_invariant [OF assms(5-7)])
  show ?thesis by (rule home_result [OF steps inv])
qed

text \<open>Claim C8 at the example configuration, after a move to X 10.\<close>

theorem home_from_reachable_witness:
  "STEPPER_PULSES_PER_MM_X example_config \<noteq> 0 \<and> STEPPER_PULSES_PER_MM_Y example_config \<noteq> 0 \<and>
   STEPPER_PULSES_PER_MM_Z example_config \<noteq> 0 \<and> STEPPER_PULSES_PER_MM_E example_config \<noteq> 0 \<and>
   0 \<le> TABLE_SIZE_X_MM example_config \<and> 0 \<le> TABLE_SIZE_Y_MM example_config \<and>
   0 \<le> TABLE_SIZE_Z_MM example_config \<and>
   fst (home example_config (run example_config
     [(example_sensors, Some (GCode (Some ''G1'') [(''X'', 10)]))] init)) = None \<and>
   position (snd (home example_config (run example_config
     [(example_sensors, Some (GCode (Some ''G1'') [(''X'', 10)]))] init))) =
     Coordinates 0 0 0 (e (position (run example_config
       [(example_sensors, Some (GCode (Some ''G1'') [(''X'', 10)]))] init)))"
proof -
  have h: "STEPPER_PULSES_PER_MM_X example_config \<noteq> 0" "STEPPER_PULSES_PER_MM_Y example_config \<noteq> 0"
    "STEPPER_PULSES_PER_MM_Z example_config \<noteq> 0" "STEPPER_PULSES_PER_MM_E example_config \<noteq> 0"
    "0 \<le> TABLE_SIZE_X_MM example_config" "0 \<le> TABLE_SIZE_Y_MM example_config"
    "0 \<le> TABLE_SIZE_Z_MM example_config"
    by (simp_all add: example_config_def)
  show ?thesis using h home_from_reachable [OF h refl] by blast
qed

section \<open>Circular moves\<close>

text \<open>
  The four tests of \<^verbatim>\<open>__quarter\<close> cover the plane: when the first three fail the
  fourth holds, and the quadrant is never the sentinel 5.
\<close>

lemma quarter_tests_exhaustive:
  fixes pa pb :: real
  shows "\<not> (pa \<ge> 0 \<and> pb \<ge> 0) \<Longrightarrow> \<not> (pa < 0 \<and> pb \<ge> 0) \<Longrightarrow> \<not> (pa < 0 \<and> pb < 0) \<Longrightarrow>
     pa \<ge> 0 \<and> pb < 0"
  by auto

lemma quarter_range: "quarter pa pb \<in> {1, 2, 3, 4}"
  by (simp add: quarter_def)

lemma quarter_not_5: "quarter pa pb \<noteq> 5"
  by (simp add: quarter_def)

lemma walk_raises:
  "walk n direction eq q pq pa pb ra rb r ma mb = Some ex \<Longrightarrow>
     ex = GMachineException ''out of effective area''"
  by (induction n arbitrary: q pq) (auto simp add: Let_def split: if_splits)

lemma radius_sqrt: "math_sqrt (ra * ra + rb * rb) = Inr (sqrt (ra * ra + rb * rb))"
  by (simp add: math_sqrt_def not_less)

lemma radius_zero_iff: "sqrt (ra * ra + rb * rb) = 0 \<longleftrightarrow> ra = 0 \<and> rb = 0"
  by (simp add: add_nonneg_eq_0_iff)

lemma math_sqrt_Inl: "math_sqrt v = Inl ex \<longleftrightarrow> v < 0 \<and> ex = ValueError"
  by (auto simp add: math_sqrt_def)

lemma adjust_circle_zero_radius:
  "adjust_circle da db 0 0 direction pa pb ma mb = Inl (GMachineException ''circle radius is zero'')"
  by (simp add: adjust_circle_def math_sqrt_def)

text \<open>
  The walk of a full circle: from every start quadrant and in both directions the four
  iterations cross the four axes, so the loop raises exactly when one of the four bounds
  is exceeded.
\<close>

lemma walk_full_circle_cw:
  assumes "sq \<in> {1, 2, 3, 4}"
  shows "walk 4 CW 5 sq sq pa pb ra rb r ma mb =
     (if pa + ra + r > ma \<or> pb + rb + r > mb \<or> pa + ra - r < 0 \<or> pb + rb - r < 0
      then Some (GMachineException ''out of effective area'') else None)"
proof -
  from assms consider "sq = 1" | "sq = 2" | "sq = 3" | "sq = 4" by auto
  then show ?thesis
    by cases (simp_all add: eval_nat_numeral Let_def)
qed

lemma walk_full_circle_ccw:
  assumes "sq \<in> {1, 2, 3, 4}"
  shows "walk 4 CCW 5 sq sq pa pb ra rb r ma mb =
     (if pa + ra + r > ma \<or> pb + rb + r > mb \<or> pa + ra - r < 0 \<or> pb + rb - r < 0
      then Some (GMachineException ''out of effective area'') else None)"
proof -
  from assms consider "sq = 1" | "sq = 2" | "sq = 3" | "sq = 4" by auto
  then show ?thesis
    by cases (simp_all add: eval_nat_numeral Let_def)
qed

lemma walk_full_circle:
  "walk 4 direction 5 (quarter a b) (quarter a b) pa pb ra rb r ma mb =
     (if pa + ra + r > ma \<or> pb + rb + r > mb \<or> pa + ra - r < 0 \<or> pb + rb - r < 0
      then Some (GMachineException ''out of effective area'') else None)"
  by (cases direction)
    (simp_all only: walk_full_circle_cw [OF quarter_range] walk_full_circle_ccw [OF quarter_range])

lemma adjust_circle_full:
  assumes "ra \<noteq> 0 \<or> rb \<noteq> 0"
  shows "adjust_circle 0 0 ra rb direction pa pb ma mb =
     (if pa + ra + sqrt (ra * ra + rb * rb) > ma \<or> pb + rb + sqrt (ra * ra + rb * rb) > mb \<or>
         pa + ra - sqrt (ra * ra + rb * rb) < 0 \<or> pb + rb - sqrt (ra * ra + rb * rb) < 0
      then Inl (GMachineException ''out of effective area'') else Inr (0, 0))"
  unfolding adjust_circle_def radius_sqrt Let_def
  using assms by (auto simp add: walk_full_circle add_nonneg_eq_0_iff simp del: walk.simps)

text \<open>
  The division \<^verbatim>\<open>(db - rb) / (da - ra)\<close> is the only place where
  \<^verbatim>\<open>__adjust_circle\<close> can divide by zero.
\<close>

lemma adjust_circle_no_division:
  assumes "da \<noteq> ra"
  shows "adjust_circle da db ra rb direction pa pb ma mb \<noteq> Inl ZeroDivisionError"
proof (cases "ra = 0 \<and> rb = 0")
  case True
  then show ?thesis by (simp add: adjust_circle_zero_radius)
next
  case r: False
  show ?thesis
  proof (cases "da = 0 \<and> db = 0")
    case True
    with r show ?thesis by (simp add: adjust_circle_full)
  next
    case False
    with r assms show ?thesis
      unfolding adjust_circle_def radius_sqrt Let_def
      by (auto simp add: add_nonneg_eq_0_iff math_sqrt_Inl simp del: walk.simps dest: walk_raises
          split: sum.splits option.splits)
  qed
qed

lemma adjust_circle_division:
  "adjust_circle da db ra rb direction pa pb ma mb = Inl ZeroDivisionError \<longleftrightarrow>
     (ra \<noteq> 0 \<or> rb \<noteq> 0) \<and> (da \<noteq> 0 \<or> db \<noteq> 0) \<and> da = ra"
proof (cases "da = ra")
  case False
  then show ?thesis by (simp add: adjust_circle_no_division)
next
  case eq: True
  show ?thesis
  proof (cases "ra = 0 \<and> rb = 0")
    case True
    then show ?thesis by (simp add: adjust_circle_zero_radius)
  next
    case r: False
    show ?thesis
    proof (cases "da = 0 \<and> db = 0")
      case True
      with r show ?thesis by (simp add: adjust_circle_full)
    next
      case False
      with r eq show ?thesis
        unfolding adjust_circle_def radius_sqrt Let_def
        by (auto simp add: add_nonneg_eq_0_iff simp del: walk.simps)
    qed
  qed
qed

text \<open>
  \<^verbatim>\<open>_circular\<close> in terms of the components in the active plane: an exception leaves
  the state as it was, and the call raises what the bounds check of the end point or
  \<^verbatim>\<open>__adjust_circle\<close> raises.
\<close>

lemma circular_raises:
  "fst (circular cfg delta0 radius0 v direction s) = Some ex \<Longrightarrow>
     circular cfg delta0 radius0 v direction s = (Some ex, s)"
  using circular_cases [of cfg delta0 radius0 v direction s]
  by (cases "circular cfg delta0 radius0 v direction s") auto

lemma circular_plane:
  assumes d: "round_to_steps cfg delta0 = Inr delta"
    and r: "round_to_steps cfg radius0 = Inr rad"
    and "in_plane (plane s) delta = (da, db)" "in_plane (plane s) rad = (ra, rb)"
      "in_plane (plane s) (position s) = (pa, pb)" "in_plane (plane s) (table cfg) = (ma, mb)"
  shows "fst (circular cfg delta0 radius0 v direction s) =
     (case check_delta cfg delta s of
        Some ex \<Rightarrow> Some ex
      | None \<Rightarrow>
          (case adjust_circle da db ra rb direction pa pb ma mb of
             Inl ex \<Rightarrow> Some ex
           | Inr ab \<Rightarrow> None))"
proof -
  let ?q = "\<lambda>c. round_c c (1 / STEPPER_PULSES_PER_MM_X cfg) (1 / STEPPER_PULSES_PER_MM_Y cfg)
    (1 / STEPPER_PULSES_PER_MM_Z cfg) (1 / STEPPER_PULSES_PER_MM_E cfg)"
  note st = round_to_steps_Inr [OF d]
  have dd: "delta = ?q delta0" using d by (simp add: st)
  have rd: "rad = ?q radius0" using r by (simp add: st)
  show ?thesis
    using assms(3-6) unfolding dd rd
    by (cases "plane s")
      (auto simp add: circular_def st in_plane_def table_def Let_def
        split: option.splits sum.splits)
qed

lemma circular_zero_radius:
  assumes d: "round_to_steps cfg delta0 = Inr delta"
    and r: "round_to_steps cfg radius0 = Inr rad"
    and z: "in_plane (plane s) rad = (0, 0)"
  shows "circular cfg delta0 radius0 v direction s =
     (Some (if is_in_aabb (position s + delta) (Coordinates 0 0 0 0) (table cfg)
            then GMachineException ''circle radius is zero''
            else GMachineException ''out of effective area''), s)"
proof -
  obtain da db where 1: "in_plane (plane s) delta = (da, db)" by (cases "in_plane (plane s) delta")
  obtain pa pb where 2: "in_plane (plane s) (position s) = (pa, pb)"
    by (cases "in_plane (plane s) (position s)")
  obtain ma mb where 3: "in_plane (plane s) (table cfg) = (ma, mb)"
    by (cases "in_plane (plane s) (table cfg)")
  show ?thesis
    by (rule circular_raises)
      (simp add: circular_plane [OF d r 1 z 2 3] adjust_circle_zero_radius check_delta_def Let_def)
qed

text \<open>
  Concrete inputs: the example configuration, the initial state, the XY plane.
\<close>

lemma example_steps_10 [simp]:
  "round_to_steps example_config (Coordinates 0 0 0 0) = Inr (Coordinates 0 0 0 0)"
  "round_to_steps example_config (Coordinates 5 0 0 0) = Inr (Coordinates 5 0 0 0)"
  "round_to_steps example_config (Coordinates 10 0 0 0) = Inr (Coordinates 10 0 0 0)"
  "round_to_steps example_config (Coordinates (- 10) 0 0 0) = Inr (Coordinates (- 10) 0 0 0)"
  "round_to_steps example_config (Coordinates 0 10 0 0) = Inr (Coordinates 0 10 0 0)"
  "round_to_steps example_config (Coordinates 0 5 0 0) = Inr (Coordinates 0 5 0 0)"
  by (simp_all add: example_steps)

lemma in_plane_XY [simp]: "in_plane PLANE_XY c = (x c, y c)"
  by (simp add: in_plane_def)

lemma example_max_velocity [simp]: "STEPPER_MAX_VELOCITY_MM_PER_MIN example_config = 1800"
  by (simp add: example_config_def)

lemma example_table [simp]: "table example_config = Coordinates 200 300 48 0"
  by (simp add: table_def example_config_def)

lemma init_fields [simp]:
  "position init = Coordinates 0 0 0 0" "velocity init = 1000" "pause init = 0"
  "plane init = PLANE_XY" "calls init = []"
  by (simp_all add: init_def reset_def)

text \<open>
  Claim C3. In a circular move whose quantized delta is zero in both components of the
  active plane (a full circle) and whose radius is not zero, the end quadrant is the
  sentinel 5, which no quadrant equals, so the walk never breaks: it makes its four
  transitions and raises exactly when one of the four boundary checks holds. Whenever
  one of them holds the command fails with ``out of effective area'' and the state,
  with the calls to the hardware layer, is unchanged; when none holds the command
  raises only what the bounds check of the end point raises.
\<close>

theorem full_circle_checks_all_quadrants:
  assumes d: "round_to_steps cfg delta0 = Inr delta"
    and r: "round_to_steps cfg radius0 = Inr rad"
    and 1: "in_plane (plane s) delta = (0, 0)"
    and 2: "in_plane (plane s) rad = (ra, rb)"
    and nz: "ra \<noteq> 0 \<or> rb \<noteq> 0"
    and 3: "in_plane (plane s) (position s) = (pa, pb)"
    and 4: "in_plane (plane s) (table cfg) = (ma, mb)"
    and rr: "r = sqrt (ra * ra + rb * rb)"
  shows "quarter a b \<noteq> 5 \<and>
     walk 4 direction 5 (quarter (- ra) (- rb)) (quarter (- ra) (- rb)) pa pb ra rb r ma mb =
       (if pa + ra + r > ma \<or> pb + rb + r > mb \<or> pa + ra - r < 0 \<or> pb + rb - r < 0
        then Some (GMachineException ''out of effective area'') else None) \<and>
     (if pa + ra + r > ma \<or> pb + rb + r > mb \<or> pa + ra - r < 0 \<or> pb + rb - r < 0
      then circular cfg delta0 radius0 v direction s =
             (Some (GMachineException ''out of effective area''), s)
      else fst (circular cfg delta0 radius0 v direction s) = check_delta cfg delta s)"
proof (intro conjI)
  show "quarter a b \<noteq> 5" by (rule quarter_not_5)
  show "walk 4 direction 5 (quarter (- ra) (- rb)) (quarter (- ra) (- rb)) pa pb ra rb r ma mb =
       (if pa + ra + r > ma \<or> pb + rb + r > mb \<or> pa + ra - r < 0 \<or> pb + rb - r < 0
        then Some (GMachineException ''out of effective area'') else None)"
    by (rule walk_full_circle)
  have f: "fst (circular cfg delta0 radius0 v direction s) =
     (case check_delta cfg delta s of
        Some ex \<Rightarrow> Some ex
      | None \<Rightarrow>
          (if pa + ra + r > ma \<or> pb + rb + r > mb \<or> pa + ra - r < 0 \<or> pb + rb - r < 0
           then Some (GMachineException ''out of effective area'') else None))"
    unfolding circular_plane [OF d r 1 2 3 4] adjust_circle_full [OF nz] rr
    by (simp split: option.splits)
  show "if pa + ra + r > ma \<or> pb + rb + r > mb \<or> pa + ra - r < 0 \<or> pb + rb - r < 0
      then circular cfg delta0 radius0 v direction s =
             (Some (GMachineException ''out of effective area''), s)
      else fst (circular cfg delta0 radius0 v direction s) = check_delta cfg delta s"
  proof (cases "pa + ra + r > ma \<or> pb + rb + r > mb \<or> pa + ra - r < 0 \<or> pb + rb - r < 0")
    case True
    have "fst (circular cfg delta0 radius0 v direction s) =
        Some (GMachineException ''out of effective area'')"
      unfolding f using True by (auto simp add: check_delta_def Let_def split: option.splits)
    from circular_raises [OF this] True show ?thesis by simp
  next
    case False
    then show ?thesis unfolding f by (auto split: option.splits)
  qed
qed

text \<open>
  Claim C3 at the full circle of radius (5, 0) from the origin: the circle leaves the
  table on the side of negative Y.
\<close>

theorem full_circle_checks_all_quadrants_witness:
  "round_to_steps example_config (Coordinates 0 0 0 0) = Inr (Coordinates 0 0 0 0) \<and>
   round_to_steps example_config (Coordinates 5 0 0 0) = Inr (Coordinates 5 0 0 0) \<and>
   in_plane (plane init) (Coordinates 0 0 0 0) = (0, 0) \<and>
   in_plane (plane init) (Coordinates 5 0 0 0) = (5, 0) \<and>
   in_plane (plane init) (position init) = (0, 0) \<and>
   in_plane (plane init) (table example_config) = (200, 300) \<and>
   (5 :: real) = sqrt (5 * 5 + 0 * 0) \<and>
   walk 4 CW 5 (quarter (- 5) (- 0)) (quarter (- 5) (- 0)) 0 0 5 0 5 200 300 =
     Some (GMachineException ''out of effective area'') \<and>
   circular example_config (Coordinates 0 0 0 0) (Coordinates 5 0 0 0) 500 CW init =
     (Some (GMachineException ''out of effective area''), init)"
proof -
  have a: "round_to_steps example_config (Coordinates 0 0 0 0) = Inr (Coordinates 0 0 0 0)"
    and b: "round_to_steps example_config (Coordinates 5 0 0 0) = Inr (Coordinates 5 0 0 0)"
    and c: "in_plane (plane init) (Coordinates 0 0 0 0) = (0, 0)"
    and d: "in_plane (plane init) (Coordinates 5 0 0 0) = (5, 0)"
    and f: "in_plane (plane init) (position init) = (0, 0)"
    and g: "in_plane (plane init) (table example_config) = (200, 300)"
    by simp_all
  have nz: "(5 :: real) \<noteq> 0 \<or> (0 :: real) \<noteq> 0" by simp
  have r: "(5 :: real) = sqrt (5 * 5 + 0 * 0)" using real_sqrt_abs2 [of 5] by simp
  show ?thesis
    using a b c d f g r
      full_circle_checks_all_quadrants [OF a b c d nz f g r, of 0 0 CW 500]
    by simp
qed

text \<open>
  Claim C4, as amended. A circular move whose quantized radius is zero in the active
  plane always fails and leaves the state unchanged: with the fault ``circle radius is
  zero'' when the end point position + delta lies in the travel envelope, and with
  ``out of effective area'' when it does not, since the end point is checked first.
\<close>

theorem zero_radius_fault:
  assumes "round_to_steps cfg delta0 = Inr delta"
    and "round_to_steps cfg radius0 = Inr rad"
    and "in_plane (plane s) rad = (0, 0)"
  shows "circular cfg delta0 radius0 v direction s =
     (Some (if is_in_aabb (position s + delta) (Coordinates 0 0 0 0) (table cfg)
            then GMachineException ''circle radius is zero''
            else GMachineException ''out of effective area''), s)"
  by (rule circular_zero_radius [OF assms])

text \<open>
  Claim C4, as amended, at a move to X 10 with radius zero.
\<close>

theorem zero_radius_fault_witness:
  "round_to_steps example_config (Coordinates 10 0 0 0) = Inr (Coordinates 10 0 0 0) \<and>
   round_to_steps example_config (Coordinates 0 0 0 0) = Inr (Coordinates 0 0 0 0) \<and>
   in_plane (plane init) (Coordinates 0 0 0 0) = (0, 0) \<and>
   circular example_config (Coordinates 10 0 0 0) (Coordinates 0 0 0 0) 500 CW init =
     (Some (GMachineException ''circle radius is zero''), init)"
proof -
  have a: "round_to_steps example_config (Coordinates 10 0 0 0) = Inr (Coordinates 10 0 0 0)"
    and b: "round_to_steps example_config (Coordinates 0 0 0 0) = Inr (Coordinates 0 0 0 0)"
    and c: "in_plane (plane init) (Coordinates 0 0 0 0) = (0, 0)"
    by simp_all
  show ?thesis
    using a b c zero_radius_fault [OF a b c, of 500 CW]
    by (simp add: is_in_aabb_def)
qed

text \<open>
  Claim C4 as stated fails: with radius zero and the delta (-10, 0, 0, 0) from the
  origin the fault is ``out of effective area'', not ``circle radius is zero''.
\<close>

theorem zero_radius_out_of_range:
  "circular example_config (Coordinates (- 10) 0 0 0) (Coordinates 0 0 0 0) 500 CW init =
     (Some (GMachineException ''out of effective area''), init) \<and>
   GMachineException ''out of effective area'' \<noteq> GMachineException ''circle radius is zero''"
proof -
  have a: "round_to_steps example_config (Coordinates (- 10) 0 0 0) = Inr (Coordinates (- 10) 0 0 0)"
    and b: "round_to_steps example_config (Coordinates 0 0 0 0) = Inr (Coordinates 0 0 0 0)"
    and c: "in_plane (plane init) (Coordinates 0 0 0 0) = (0, 0)"
    by simp_all
  show ?thesis
    using circular_zero_radius [OF a b c, of 500 CW]
    by (simp add: is_in_aabb_def)
qed

text \<open>
  Claim C5. \<^verbatim>\<open>_circular\<close> raises \<^verbatim>\<open>ZeroDivisionError\<close>, which is not a machine
  fault, exactly when the end point is in the envelope, the radius is not zero, the
  delta is not zero in the plane, and the first plane component of the delta equals that
  of the radius (\<open>da = ra\<close>); the state is then unchanged. The pulses per millimetre are
  not zero (the quantization returns).
\<close>

theorem circular_division_by_zero:
  assumes d: "round_to_steps cfg delta0 = Inr delta"
    and r: "round_to_steps cfg radius0 = Inr rad"
    and 1: "in_plane (plane s) delta = (da, db)"
    and 2: "in_plane (plane s) rad = (ra, rb)"
  shows "circular cfg delta0 radius0 v direction s = (Some ZeroDivisionError, s) \<longleftrightarrow>
     is_in_aabb (position s + delta) (Coordinates 0 0 0 0) (table cfg) \<and>
     (ra \<noteq> 0 \<or> rb \<noteq> 0) \<and> (da \<noteq> 0 \<or> db \<noteq> 0) \<and> da = ra"
proof -
  obtain pa pb where 3: "in_plane (plane s) (position s) = (pa, pb)"
    by (cases "in_plane (plane s) (position s)")
  obtain ma mb where 4: "in_plane (plane s) (table cfg) = (ma, mb)"
    by (cases "in_plane (plane s) (table cfg)")
  have "circular cfg delta0 radius0 v direction s = (Some ZeroDivisionError, s) \<longleftrightarrow>
      fst (circular cfg delta0 radius0 v direction s) = Some ZeroDivisionError"
    using circular_raises [of cfg delta0 radius0 v direction s ZeroDivisionError] by auto
  also have "\<dots> \<longleftrightarrow> check_delta cfg delta s = None \<and>
      adjust_circle da db ra rb direction pa pb ma mb = Inl ZeroDivisionError"
    unfolding circular_plane [OF d r 1 2 3 4]
    by (auto simp add: check_delta_def Let_def split: option.splits sum.splits)
  finally show ?thesis
    by (simp add: check_delta_None adjust_circle_division)
qed

text \<open>
  Claim C5 at the delta (0, 10) with the radius (0, 5) from the origin: quantized, in
  bounds, and the division raises.
\<close>

theorem circular_division_by_zero_witness:
  "round_to_steps example_config (Coordinates 0 10 0 0) = Inr (Coordinates 0 10 0 0) \<and>
   round_to_steps example_config (Coordinates 0 5 0 0) = Inr (Coordinates 0 5 0 0) \<and>
   in_plane (plane init) (Coordinates 0 10 0 0) = (0, 10) \<and>
   in_plane (plane init) (Coordinates 0 5 0 0) = (0, 5) \<and>
   is_in_aabb (position init + Coordinates 0 10 0 0) (Coordinates 0 0 0 0) (table example_config) \<and>
   circular example_config (Coordinates 0 10 0 0) (Coordinates 0 5 0 0) 500 CW init =
     (Some ZeroDivisionError, init)"
proof -
  have a: "round_to_steps example_config (Coordinates 0 10 0 0) = Inr (Coordinates 0 10 0 0)"
    and b: "round_to_steps example_config (Coordinates 0 5 0 0) = Inr (Coordinates 0 5 0 0)"
    and c: "in_plane (plane init) (Coordinates 0 10 0 0) = (0, 10)"
    and d: "in_plane (plane init) (Coordinates 0 5 0 0) = (0, 5)"
    by simp_all
  have f: "is_in_aabb (position init + Coordinates 0 10 0 0) (Coordinates 0 0 0 0)
      (table example_config)"
    by (simp add: is_in_aabb_def)
  show ?thesis
    using a b c d f circular_division_by_zero [OF a b c d, of 500 CW]
    by simp
qed

section \<open>Commands without motion\<close>

lemma do_command_simple:
  assumes c: "command g = Some c"
    and sel: "\<And>delta rad. select_command cfg env g (Some c) delta rad (get g ''F'' (velocity s))
        (get g ''P'' (pause s)) s = (Inr None, s')"
  shows "do_command cfg env (Some g) s =
     (if get g ''F'' (velocity s) \<le> 0 \<or>
         get g ''F'' (velocity s) > STEPPER_MAX_VELOCITY_MM_PER_MIN cfg
      then (Inl (GMachineException ''bad feed speed''), s)
      else if get g ''P'' (pause s) < 0 then (Inl (GMachineException ''bad delay''), s)
      else (Inr None, s'\<lparr>velocity := get g ''F'' (velocity s), pause := get g ''P'' (pause s)\<rparr>))"
  by (simp add: do_command_def c sel Let_def)

lemma select_G20: "select_command cfg env g (Some ''G20'') delta rad v p s =
    (Inr None, s\<lparr>convertCoordinates := 25.4\<rparr>)"
  by (simp add: select_command_def)

lemma select_G21: "select_command cfg env g (Some ''G21'') delta rad v p s =
    (Inr None, s\<lparr>convertCoordinates := 1\<rparr>)"
  by (simp add: select_command_def)

lemma select_M2: "select_command cfg env g (Some ''M2'') delta rad v p s = (Inr None, reset s)"
  by (simp add: select_command_def)

lemma select_M30: "select_command cfg env g (Some ''M30'') delta rad v p s = (Inr None, reset s)"
  by (simp add: select_command_def)

lemma select_None: "select_command cfg env g None delta rad v p s = (Inr None, s)"
  by (simp add: select_command_def)

lemma unit_select:
  assumes "command g = Some ''G20'' \<or> command g = Some ''G21''"
  shows "do_command cfg env (Some g) s =
     (if get g ''F'' (velocity s) \<le> 0 \<or>
         get g ''F'' (velocity s) > STEPPER_MAX_VELOCITY_MM_PER_MIN cfg
      then (Inl (GMachineException ''bad feed speed''), s)
      else if get g ''P'' (pause s) < 0 then (Inl (GMachineException ''bad delay''), s)
      else (Inr None, s\<lparr>convertCoordinates := (if command g = Some ''G20'' then 25.4 else 1),
                        velocity := get g ''F'' (velocity s),
                        pause := get g ''P'' (pause s)\<rparr>))"
  using assms
proof
  assume c: "command g = Some ''G20''"
  show ?thesis unfolding do_command_simple [OF c select_G20] by (simp add: c)
next
  assume c: "command g = Some ''G21''"
  show ?thesis unfolding do_command_simple [OF c select_G21] by (simp add: c)
qed

lemma program_end:
  assumes "command g = Some ''M2'' \<or> command g = Some ''M30''"
  shows "do_command cfg env (Some g) s =
     (if get g ''F'' (velocity s) \<le> 0 \<or>
         get g ''F'' (velocity s) > STEPPER_MAX_VELOCITY_MM_PER_MIN cfg
      then (Inl (GMachineException ''bad feed speed''), s)
      else if get g ''P'' (pause s) < 0 then (Inl (GMachineException ''bad delay''), s)
      else (Inr None, (reset s)\<lparr>velocity := get g ''F'' (velocity s),
                                 pause := get g ''P'' (pause s)\<rparr>))"
  using assms
proof
  assume c: "command g = Some ''M2''"
  show ?thesis by (rule do_command_simple [OF c select_M2])
next
  assume c: "command g = Some ''M30''"
  show ?thesis by (rule do_command_simple [OF c select_M30])
qed

lemma parameters_only:
  assumes "command g = None" "\<not> has_coordinates g"
  shows "do_command cfg env (Some g) s =
     (if get g ''F'' (velocity s) \<le> 0 \<or>
         get g ''F'' (velocity s) > STEPPER_MAX_VELOCITY_MM_PER_MIN cfg
      then (Inl (GMachineException ''bad feed speed''), s)
      else if get g ''P'' (pause s) < 0 then (Inl (GMachineException ''bad delay''), s)
      else (Inr None, s\<lparr>velocity := get g ''F'' (velocity s), pause := get g ''P'' (pause s)\<rparr>))"
  by (simp add: do_command_def assms select_None Let_def)

lemma GCode_sel [simp]:
  "command (GCode c ps) = c"
  "get (GCode c ps) n d = param ps n d 1"
  "has_coordinates (GCode c ps) \<longleftrightarrow> ''X'' \<in> dom (map_of ps) \<or> ''Y'' \<in> dom (map_of ps) \<or>
      ''Z'' \<in> dom (map_of ps) \<or> ''E'' \<in> dom (map_of ps)"
  by (simp_all add: GCode_def)

lemma reset_init: "reset (init\<lparr>velocity := v, pause := p\<rparr>) = init"
  by (simp add: init_def reset_def)

text \<open>
  Claim C6 does not hold of the code. \<^verbatim>\<open>do_command\<close> reads the velocity and the
  pause before it selects the command and writes them back after it, so \<^verbatim>\<open>reset()\<close>
  of M2 and M30 does not reach them (lemma \<open>program_end\<close>). Here the parameters F500
  and P2 are sent first; after the following M2, which returns normally, the feed
  velocity is 500 and the pause 2, not 1000 and 0.
\<close>

theorem program_end_keeps_velocity:
  "do_command example_config example_sensors (Some (GCode None [(''F'', 500), (''P'', 2)])) init =
     (Inr None, init\<lparr>velocity := 500, pause := 2\<rparr>) \<and>
   do_command example_config example_sensors (Some (GCode (Some ''M2'') []))
       (init\<lparr>velocity := 500, pause := 2\<rparr>) =
     (Inr None, init\<lparr>velocity := 500, pause := 2\<rparr>) \<and>
   velocity (init\<lparr>velocity := 500, pause := 2\<rparr>) \<noteq> 1000 \<and>
   pause (init\<lparr>velocity := 500, pause := 2\<rparr>) \<noteq> 0"
proof (intro conjI)
  show "do_command example_config example_sensors (Some (GCode None [(''F'', 500), (''P'', 2)])) init =
     (Inr None, init\<lparr>velocity := 500, pause := 2\<rparr>)"
    by (simp add: parameters_only param_def)
  show "do_command example_config example_sensors (Some (GCode (Some ''M2'') []))
       (init\<lparr>velocity := 500, pause := 2\<rparr>) =
     (Inr None, init\<lparr>velocity := 500, pause := 2\<rparr>)"
    by (simp add: program_end param_def reset_init)
qed simp_all

text \<open>
  Claim C10, as amended. A unit-select command (G20, G21) that passes the validation of
  feed velocity and pause changes the conversion multiplier (to 25.4 or 1), and the
  defaults of feed velocity and pause, which take the parameters F and P of the command
  (for a command without them they stay as they are); nothing else changes: the
  position is as before and no call reaches the hardware layer. When the validation
  fails, the state is unchanged.
\<close>

theorem unit_select_frame:
  assumes "command g = Some ''G20'' \<or> command g = Some ''G21''"
  shows "do_command cfg env (Some g) s =
     (if get g ''F'' (velocity s) \<le> 0 \<or>
         get g ''F'' (velocity s) > STEPPER_MAX_VELOCITY_MM_PER_MIN cfg
      then (Inl (GMachineException ''bad feed speed''), s)
      else if get g ''P'' (pause s) < 0 then (Inl (GMachineException ''bad delay''), s)
      else (Inr None, s\<lparr>convertCoordinates := (if command g = Some ''G20'' then 25.4 else 1),
                        velocity := get g ''F'' (velocity s),
                        pause := get g ''P'' (pause s)\<rparr>))"
  by (rule unit_select [OF assms])

text \<open>
  Claim C10, as amended, at G20 F500 from the initial state.
\<close>

theorem unit_select_frame_witness:
  "do_command example_config example_sensors (Some (GCode (Some ''G20'') [(''F'', 500)])) init =
     (Inr None, init\<lparr>convertCoordinates := 25.4, velocity := 500, pause := 0\<rparr>)"
  using unit_select_frame [of "GCode (Some ''G20'') [(''F'', 500)]" example_config example_sensors init]
  by (simp add: param_def)

text \<open>
  Claim C10 as stated fails: G20 F500 changes the feed velocity as well as the
  multiplier.
\<close>

theorem unit_select_changes_velocity:
  "snd (do_command example_config example_sensors (Some (GCode (Some ''G20'') [(''F'', 500)])) init)
     \<noteq> init\<lparr>convertCoordinates := 25.4\<rparr>"
proof -
  have "velocity (snd (do_command example_config example_sensors
      (Some (GCode (Some ''G20'') [(''F'', 500)])) init)) = 500"
    by (simp add: unit_select param_def)
  moreover have "velocity (init\<lparr>convertCoordinates := 25.4\<rparr>) = 1000" by simp
  ultimately show ?thesis by auto
qed

section \<open>A concrete run\<close>

lemma GCode_coordinates [simp]:
  "coordinates (GCode c ps) d m = Coordinates (param ps ''X'' (x d) m) (param ps ''Y'' (y d) m)
                                        (param ps ''Z'' (z d) m) (param ps ''E'' (e d) m)"
  "radius (GCode c ps) d m = Coordinates (param ps ''I'' (x d) m) (param ps ''J'' (y d) m)
                                   (param ps ''K'' (z d) m) 0"
  by (simp_all add: GCode_def)

text \<open>
  The example of the spec: G1 X10 from the origin returns normally, passes one linear
  segment to the hardware layer and stores the position (10, 0, 0, 0).
\<close>

lemma example_linear_move:
  "do_command example_config example_sensors (Some (GCode (Some ''G1'') [(''X'', 10)])) init =
    (Inr None, init\<lparr>calls := [Hal_move (PulseGeneratorLinear (Coordinates 10 0 0 0) 1000)],
                     position := Coordinates 10 0 0 0\<rparr>)"
  by (simp add: do_command_def select_command_def param_def Let_def returned_def
      move_linear_def example_steps check_delta_def is_in_aabb_def is_zero_def
      plus_coordinates_def minus_coordinates_def init_def reset_def)

end
